theory Spec2Isabelle
  imports Main "HOL-Library.Sublist"
begin

section \<open>The catch-all documentation route (src/routes/docs/$.tsx)\<close>

text \<open>
  The route file wires three outside objects together: the content \<open>source\<close>
  (imported from \<open>@/lib/source\<close>), the client-side content loader
  \<open>clientLoader\<close> (made by the browser collection) and the shared layout options
  \<open>baseOptions\<close> (imported from \<open>@/lib/layout.shared\<close>). None of the three is
  defined in the route file, so each is a parameter of the model: a record of the
  members the route file reads or calls.

  Every call the route file makes on one of these objects is written to a log of
  events, in the order of the calls, so that "looks up", "preloads" and "before" can
  be stated. A thrown value or a rejected promise is the \<open>Inl\<close> of a sum.
\<close>

subsection \<open>Data\<close>

text \<open>A page of the content source. The route file reads its \<open>path\<close> only; the
  other members a page has live in the record's extension.\<close>

record page =
  path :: string

text \<open>The content source: \<open>source.getPage(slugs)\<close> gives a page or \<open>undefined\<close>
  (here \<open>None\<close>), \<open>source.pageTree\<close> is the page tree.\<close>

record ('t, 'm) source =
  getPage :: "string list \<Rightarrow> 'm page_scheme option"
  pageTree :: 't

text \<open>The client loader: \<open>preload(path)\<close> returns a promise, which resolves or
  rejects; \<open>getComponent(path)\<close> gives the content component.\<close>

datatype settled = Resolved | Rejected

record 'c client_loader =
  preload :: "string \<Rightarrow> settled"
  getComponent :: "string \<Rightarrow> 'c"

text \<open>The object the server function returns: \<open>{ tree, path }\<close>.\<close>

record 't loader_data =
  tree :: 't
  path :: string

text \<open>The route parameters: \<open>params._splat\<close> is a string or absent.\<close>

record params =
  splat :: "string option"

text \<open>What leaves a function by \<open>throw\<close>: the value of \<open>notFound()\<close>, or the
  rejection of the \<open>preload\<close> promise.\<close>

datatype failure = NotFound | PreloadRejected

text \<open>The calls made on the outside objects.\<close>

datatype event = GetPage "string list" | Preload string | GetComponent string

subsection \<open>Splitting the splat\<close>

text \<open>
  \<open>String.prototype.split\<close> with a separator of one character: the text before the
  first separator is the first segment, and the text after it is split in the same
  way; a string without a separator, the empty string too, is one segment. A string
  is the list of its code units, and \<open>/\<close> is one code unit.
\<close>

function split :: "string \<Rightarrow> char \<Rightarrow> string list" where
  "split s sep =
     (case dropWhile (\<lambda>c. c \<noteq> sep) s of
        [] \<Rightarrow> [takeWhile (\<lambda>c. c \<noteq> sep) s]
      | _ # rest \<Rightarrow> takeWhile (\<lambda>c. c \<noteq> sep) s # split rest sep)"
  by pat_completeness auto
termination
proof (relation "measure (\<lambda>(s, sep). length s)")
  show "wf (measure (\<lambda>(s, sep). length s))" by simp
next
  fix s :: string and sep c rest
  assume "dropWhile (\<lambda>c. c \<noteq> sep) s = c # rest"
  then have "length rest < length (dropWhile (\<lambda>c. c \<noteq> sep) s)" by simp
  also have "\<dots> \<le> length s" by (rule length_dropWhile_le)
  finally show "((rest, sep), (s, sep)) \<in> measure (\<lambda>(s, sep). length s)" by simp
qed

declare split.simps [simp del]

subsection \<open>The server function\<close>

text \<open>\<open>.inputValidator((slugs: string[]) => slugs)\<close>\<close>

definition inputValidator :: "string list \<Rightarrow> string list" where
  "inputValidator slugs = slugs"

text \<open>
  \<open>.handler(async ({ data: slugs }) => { ... })\<close>: one call of \<open>source.getPage\<close>;
  \<open>!page\<close> holds exactly for \<open>undefined\<close>, a page being an object.
\<close>

definition handler ::
  "('t, 'm) source \<Rightarrow> string list \<Rightarrow> event list \<Rightarrow> (failure + 't loader_data) \<times> event list"
where
  "handler src slugs log =
     (case getPage src slugs of
        None \<Rightarrow> (Inl NotFound, log @ [GetPage slugs])
      | Some page \<Rightarrow>
          (Inr \<lparr> tree = pageTree src, path = page.path page \<rparr>, log @ [GetPage slugs]))"

text \<open>\<open>loader({ data: slugs })\<close>: the validator, then the handler.\<close>

definition loader ::
  "('t, 'm) source \<Rightarrow> string list \<Rightarrow> event list \<Rightarrow> (failure + 't loader_data) \<times> event list"
where
  "loader src slugs log = handler src (inputValidator slugs) log"

subsection \<open>The route loader\<close>

text \<open>\<open>params._splat?.split("/") ?? []\<close>\<close>

definition slugs_of :: "params \<Rightarrow> string list" where
  "slugs_of ps = (case splat ps of None \<Rightarrow> [] | Some s \<Rightarrow> split s CHR ''/'')"

text \<open>
  \<open>Route.loader\<close>: the call of the server function runs its validator and handler;
  an \<open>await\<close> of a rejected promise leaves the function at once with that rejection.
\<close>

definition Route_loader ::
  "('t, 'm) source \<Rightarrow> 'c client_loader \<Rightarrow> params \<Rightarrow> event list
     \<Rightarrow> (failure + 't loader_data) \<times> event list"
where
  "Route_loader src clientLoader ps log =
     (let slugs = slugs_of ps in
      case loader src slugs log of
        (Inl err, log1) \<Rightarrow> (Inl err, log1)
      | (Inr data, log1) \<Rightarrow>
          (case preload clientLoader (path data) of
             Rejected \<Rightarrow> (Inl PreloadRejected, log1 @ [Preload (path data)])
           | Resolved \<Rightarrow> (Inr data, log1 @ [Preload (path data)])))"

subsection \<open>The page component and its navigation tree\<close>

text \<open>
  A node of the tree handed to \<open>DocsLayout\<close>: an object with a \<open>name\<close> and, each
  of them optional, a \<open>type\<close>, a \<open>url\<close> and \<open>children\<close>. A member the object literal
  does not write is \<open>None\<close>.
\<close>

datatype node_type = PageNode | SeparatorNode

datatype node =
  Node (name: string) (type: "node_type option") (url: "string option")
       (children: "node list option")

text \<open>The object literal of \<open>tree={{ ... }}\<close> in \<open>Page\<close>, member by member.\<close>

definition sidebar_tree :: node where
  "sidebar_tree =
     Node ''docs'' None None (Some
       [ Node ''Introduction'' (Some PageNode) (Some ''/docs'') None,
         Node ''Basics'' (Some SeparatorNode) None None,
         Node ''Layouts and Pages'' (Some PageNode) (Some ''/docs/basic-routing'') None,
         Node ''Path Params'' (Some PageNode) (Some ''/docs/path-params'') None,
         Node ''Navigation'' (Some PageNode) (Some ''/docs/navigation'') None,
         Node ''Search Params'' (Some PageNode) (Some ''/docs/search-params'') None,
         Node ''Hooks'' (Some SeparatorNode) None None,
         Node ''useNavigate'' (Some PageNode) (Some ''/docs/use-navigate'') None,
         Node ''useParams'' (Some PageNode) (Some ''/docs/use-params'') None,
         Node ''useSearch'' (Some PageNode) (Some ''/docs/use-search'') None,
         Node ''useLocation'' (Some PageNode) (Some ''/docs/use-location'') None,
         Node ''Usage'' (Some SeparatorNode) None None,
         Node ''Pagination'' (Some PageNode) (Some ''/docs/pagination'') None ])"

text \<open>Every node of a tree: the node itself, then the nodes of its children in order.\<close>

fun nodes :: "node \<Rightarrow> node list" where
  "nodes (Node n t u cs) =
     Node n t u cs # (case cs of None \<Rightarrow> [] | Some ns \<Rightarrow> concat (map nodes ns))"

text \<open>
  The props of the \<open>DocsLayout\<close> element that \<open>Page\<close> returns: the spread of
  \<open>baseOptions()\<close> first, then \<open>tree\<close> and \<open>sidebar\<close>, which therefore win over a
  member of the same name in the spread, and the \<open>Content\<close> element as the child.
\<close>

record ('b, 'c) docs_layout =
  layout_base :: 'b
  layout_tree :: node
  layout_sidebar_collapsible :: bool
  layout_children :: 'c

text \<open>
  \<open>Page\<close>: \<open>data\<close> is the value of \<open>Route.useLoaderData()\<close>, the loader data of the
  route; the one call on an outside object is \<open>clientLoader.getComponent(data.path)\<close>.
\<close>

definition Page ::
  "'b \<Rightarrow> 'c client_loader \<Rightarrow> 't loader_data \<Rightarrow> event list
     \<Rightarrow> ('b, 'c) docs_layout \<times> event list"
where
  "Page baseOptions clientLoader data log =
     (let Content = getComponent clientLoader (path data) in
      (\<lparr> layout_base = baseOptions,
         layout_tree = sidebar_tree,
         layout_sidebar_collapsible = False,
         layout_children = Content \<rparr>,
       log @ [GetComponent (path data)]))"

section \<open>The content files\<close>

text \<open>
  A content file is a text; here each is the list of its first four lines, under the
  name it has in the repository. The text of the page follows these lines in the file.
  Two of the files are named here by their titles, \<open>Navigation\<close> and
  \<open>useSearch\<close>.
\<close>

definition basic_routing_md :: "string list" where
  "basic_routing_md =
     [ ''---'',
       ''title: Layouts and Pages'',
       ''description: Learn how to create layouts and pages in TanStack Router using file-based routing.'',
       ''---'' ]"

definition path_params_md :: "string list" where
  "path_params_md =
     [ ''---'',
       ''title: Path Params'',
       ''description: Learn how to work with path parameters (dynamic route segments) in TanStack Router.'',
       ''---'' ]"

definition search_params_md :: "string list" where
  "search_params_md =
     [ ''---'',
       ''title: Search Params'',
       ''description: Learn how to work with search params (query strings) in TanStack Router with type safety and validation.'',
       ''---'' ]"

definition use_location_md :: "string list" where
  "use_location_md =
     [ ''---'',
       ''title: useLocation'',
       ''description: Access current location information including pathname, search params, hash, and other URL data.'',
       ''---'' ]"

definition use_navigate_md :: "string list" where
  "use_navigate_md =
     [ ''---'',
       ''title: useNavigate'',
       ''description: Navigate programmatically in TanStack Router for side effects like form submissions and API responses.'',
       ''---'' ]"

definition use_params_md :: "string list" where
  "use_params_md =
     [ ''---'',
       ''title: useParams'',
       ''description: Access path parameters from the current route with type safety.'',
       ''---'' ]"

definition pagination_md :: "string list" where
  "pagination_md =
     [ ''---'',
       ''title: URL-Based Pagination'',
       ''description: Handle pagination state in URLs with TanStack Router'',
       ''---'' ]"

definition navigation_page :: "string list" where
  "navigation_page =
     [ ''---'',
       ''title: Navigation'',
       ''description: Learn how to navigate between routes in TanStack Router using Link, useNavigate, and other navigation methods.'',
       ''---'' ]"

definition use_search_page :: "string list" where
  "use_search_page =
     [ ''---'',
       ''title: useSearch'',
       ''description: Access validated search parameters (query strings) from the current route with type safety.'',
       ''---'' ]"

definition content_files :: "string list list" where
  "content_files =
     [ basic_routing_md, path_params_md, search_params_md,
       use_location_md, use_navigate_md, use_params_md,
       pagination_md, navigation_page, use_search_page ]"

text \<open>
  The front matter of a text: the text opens with a line \<open>---\<close>, a later line \<open>---\<close>
  closes the block, and the block is the lines between the two.
\<close>

definition front_matter :: "string list \<Rightarrow> string list option" where
  "front_matter ls =
     (case ls of
        [] \<Rightarrow> None
      | l # rest \<Rightarrow>
          if l = ''---'' \<and> ''---'' \<in> set rest
          then Some (takeWhile (\<lambda>x. x \<noteq> ''---'') rest)
          else None)"

text \<open>A block declares a field when one of its lines is \<open>field: value\<close>.\<close>

definition declares :: "string \<Rightarrow> string list \<Rightarrow> bool" where
  "declares field block = list_ex (\<lambda>l. prefix (field @ '': '') l) block"

definition has_title_and_description :: "string list \<Rightarrow> bool" where
  "has_title_and_description ls =
     (case front_matter ls of
        None \<Rightarrow> False
      | Some block \<Rightarrow> declares ''title'' block \<and> declares ''description'' block)"

section \<open>Auxiliary definitions for stating the properties\<close>

text \<open>\<open>Array.prototype.join\<close> with a separator of one character, the inverse of
  \<open>split\<close>.\<close>

fun join :: "string list \<Rightarrow> char \<Rightarrow> string" where
  "join [] sep = []"
| "join [w] sep = w"
| "join (w # ws) sep = w @ sep # join ws sep"

text \<open>The arguments of the \<open>source.getPage\<close> calls and of the
  \<open>clientLoader.preload\<close> calls of a log, in the order of the calls.\<close>

fun lookups :: "event list \<Rightarrow> string list list" where
  "lookups [] = []"
| "lookups (GetPage slugs # es) = slugs # lookups es"
| "lookups (Preload p # es) = lookups es"
| "lookups (GetComponent p # es) = lookups es"

fun preloads :: "event list \<Rightarrow> string list" where
  "preloads [] = []"
| "preloads (GetPage slugs # es) = preloads es"
| "preloads (Preload p # es) = p # preloads es"
| "preloads (GetComponent p # es) = preloads es"

text \<open>
  A content source with two pages and a client loader whose preloads all resolve, at
  which the theorems below are instantiated.
\<close>

definition example_source :: "(string, unit) source" where
  "example_source =
     \<lparr> getPage = (\<lambda>slugs.
         if slugs = [''search-params''] then Some \<lparr> page.path = ''(basics)/search-params.md'' \<rparr>
         else if slugs = [''pagination''] then Some \<lparr> page.path = ''(usages)/pagination.md'' \<rparr>
         else None),
       pageTree = ''the page tree'' \<rparr>"

definition example_client_loader :: "string client_loader" where
  "example_client_loader =
     \<lparr> preload = (\<lambda>p. Resolved), getComponent = (\<lambda>p. ''component of '' @ p) \<rparr>"

section \<open>Properties of \<open>split\<close>\<close>

lemma split_no_sep:
  assumes "sep \<notin> set s"
  shows "split s sep = [s]"
proof -
  from assms have all: "\<forall>c\<in>set s. c \<noteq> sep" by auto
  then have d: "dropWhile (\<lambda>c. c \<noteq> sep) s = []" by simp
  from all have t: "takeWhile (\<lambda>c. c \<noteq> sep) s = s" by simp
  show ?thesis by (subst split.simps) (simp add: d t)
qed

lemma split_sep:
  assumes "sep \<notin> set w"
  shows "split (w @ sep # rest) sep = w # split rest sep"
proof -
  from assms have all: "\<forall>c\<in>set w. c \<noteq> sep" by auto
  then have d: "dropWhile (\<lambda>c. c \<noteq> sep) (w @ sep # rest) = sep # rest" by simp
  from all have t: "takeWhile (\<lambda>c. c \<noteq> sep) (w @ sep # rest) = w" by simp
  show ?thesis by (subst split.simps) (simp add: d t)
qed

lemma split_Nil: "split [] sep = [[]]"
  by (simp add: split_no_sep)

lemma split_not_Nil: "split s sep \<noteq> []"
  by (subst split.simps) (simp split: list.splits)

lemma split_segments: "w \<in> set (split s sep) \<Longrightarrow> sep \<notin> set w"
proof (induction s sep rule: split.induct)
  case (1 s sep)
  show ?case
  proof (cases "dropWhile (\<lambda>c. c \<noteq> sep) s")
    case Nil
    with "1.prems" have "w = takeWhile (\<lambda>c. c \<noteq> sep) s"
      by (subst (asm) split.simps) simp
    then show ?thesis by (auto dest: set_takeWhileD)
  next
    case (Cons c rest)
    with "1.prems" have "w = takeWhile (\<lambda>c. c \<noteq> sep) s \<or> w \<in> set (split rest sep)"
      by (subst (asm) split.simps) auto
    then show ?thesis using "1.IH" [OF Cons] by (auto dest: set_takeWhileD)
  qed
qed

lemma join_split: "join (split s sep) sep = s"
proof (induction s sep rule: split.induct)
  case (1 s sep)
  show ?case
  proof (cases "dropWhile (\<lambda>c. c \<noteq> sep) s")
    case Nil
    then have "sep \<notin> set s" by (auto simp: dropWhile_eq_Nil_conv)
    then show ?thesis by (simp add: split_no_sep)
  next
    case (Cons c rest)
    then have c: "c = sep" using hd_dropWhile [of "\<lambda>c. c \<noteq> sep" s] by auto
    have "s = takeWhile (\<lambda>c. c \<noteq> sep) s @ dropWhile (\<lambda>c. c \<noteq> sep) s" by simp
    then have s: "s = takeWhile (\<lambda>c. c \<noteq> sep) s @ sep # rest" using Cons c by simp
    obtain v vs where v: "split rest sep = v # vs"
      using split_not_Nil [of rest sep] by (cases "split rest sep") auto
    have "join (split s sep) sep
            = takeWhile (\<lambda>c. c \<noteq> sep) s @ sep # join (split rest sep) sep"
      by (subst split.simps) (simp add: Cons v)
    also have "\<dots> = takeWhile (\<lambda>c. c \<noteq> sep) s @ sep # rest"
      using "1.IH" [OF Cons] by simp
    finally show ?thesis using s by simp
  qed
qed

text \<open>The two properties fix the result: a list of segments free of the separator
  that joins to \<open>s\<close> is the split of \<open>s\<close>.\<close>

lemma split_join:
  assumes "ws \<noteq> []" and "\<forall>w\<in>set ws. sep \<notin> set w"
  shows "split (join ws sep) sep = ws"
  using assms
proof (induction ws sep rule: join.induct)
  case (1 sep)
  then show ?case by simp
next
  case (2 w sep)
  then show ?case by (simp add: split_no_sep)
next
  case (3 w v vs sep)
  then show ?case by (simp add: split_sep)
qed

section \<open>Properties of the logs\<close>

lemma lookups_append: "lookups (es @ fs) = lookups es @ lookups fs"
  by (induction es rule: lookups.induct) simp_all

lemma preloads_append: "preloads (es @ fs) = preloads es @ preloads fs"
  by (induction es rule: preloads.induct) simp_all

section \<open>The server function\<close>

text \<open>The server function in one equation: validator and handler unfolded.\<close>

lemma loader_eq:
  "loader src slugs log =
     (case getPage src slugs of
        None \<Rightarrow> (Inl NotFound, log @ [GetPage slugs])
      | Some page \<Rightarrow>
          (Inr \<lparr> tree = pageTree src, path = page.path page \<rparr>, log @ [GetPage slugs]))"
  by (simp add: loader_def handler_def inputValidator_def)

text \<open>
  C1. For every array of slug segments, the server function signals not-found exactly
  when the content source has no page for those segments; when the source has a page,
  it returns the object whose \<open>path\<close> is the path of that page and whose \<open>tree\<close> is
  the page tree of the source.
\<close>

theorem loader_not_found_iff_no_page:
  "(fst (loader src slugs log) = Inl NotFound) = (getPage src slugs = None)
   \<and> (\<forall>page. getPage src slugs = Some page \<longrightarrow>
         fst (loader src slugs log) = Inr \<lparr> tree = pageTree src, path = page.path page \<rparr>)"
  by (simp add: loader_eq split: option.splits)

theorem loader_not_found_iff_no_page_witness:
  "getPage example_source [''search-params'']
     = Some \<lparr> page.path = ''(basics)/search-params.md'' \<rparr>
   \<and> fst (loader example_source [''search-params''] [])
       = Inr \<lparr> tree = ''the page tree'', path = ''(basics)/search-params.md'' \<rparr>
   \<and> getPage example_source [''nowhere''] = None
   \<and> fst (loader example_source [''nowhere''] []) = Inl NotFound"
  using loader_not_found_iff_no_page [of example_source "[''search-params'']" "[]"]
    loader_not_found_iff_no_page [of example_source "[''nowhere'']" "[]"]
  by (simp add: example_source_def)

text \<open>
  C10. For any two slug arrays on which the server function succeeds, the \<open>tree\<close>
  members of the two results are equal: each is the whole page tree of the content
  source, whichever slug was asked for.
\<close>

theorem loader_tree_independent_of_slugs:
  assumes "fst (loader src slugs1 log1) = Inr data1"
    and "fst (loader src slugs2 log2) = Inr data2"
  shows "tree data1 = tree data2 \<and> tree data1 = pageTree src"
  using assms by (auto simp: loader_eq split: option.splits)

theorem loader_tree_independent_of_slugs_witness:
  "fst (loader example_source [''search-params''] [])
     = Inr \<lparr> tree = ''the page tree'', path = ''(basics)/search-params.md'' \<rparr>
   \<and> fst (loader example_source [''pagination''] [])
     = Inr \<lparr> tree = ''the page tree'', path = ''(usages)/pagination.md'' \<rparr>
   \<and> tree \<lparr> tree = ''the page tree'', path = ''(basics)/search-params.md'' \<rparr>
     = tree \<lparr> tree = ''the page tree'', path = ''(usages)/pagination.md'' \<rparr>
   \<and> tree \<lparr> tree = ''the page tree'', path = ''(basics)/search-params.md'' \<rparr>
     = pageTree example_source"
proof -
  have a: "fst (loader example_source [''search-params''] [])
     = Inr \<lparr> tree = ''the page tree'', path = ''(basics)/search-params.md'' \<rparr>"
    by (simp add: loader_eq example_source_def)
  have b: "fst (loader example_source [''pagination''] [])
     = Inr \<lparr> tree = ''the page tree'', path = ''(usages)/pagination.md'' \<rparr>"
    by (simp add: loader_eq example_source_def)
  from a b loader_tree_independent_of_slugs [OF a b] show ?thesis by blast
qed

section \<open>The route loader\<close>

text \<open>The route loader in one equation, by the outcome of the lookup and of the
  preload.\<close>

lemma Route_loader_eq:
  "Route_loader src cl ps log =
     (case getPage src (slugs_of ps) of
        None \<Rightarrow> (Inl NotFound, log @ [GetPage (slugs_of ps)])
      | Some page \<Rightarrow>
          ((case preload cl (page.path page) of
              Rejected \<Rightarrow> Inl PreloadRejected
            | Resolved \<Rightarrow> Inr \<lparr> tree = pageTree src, path = page.path page \<rparr>),
           log @ [GetPage (slugs_of ps), Preload (page.path page)]))"
  by (simp add: Route_loader_def loader_eq Let_def split: option.splits settled.splits)

text \<open>
  C2. For every splat string the route captures, the route loader makes one lookup in
  the content source, and its argument is the split of the splat on \<open>/\<close>: the list
  of segments free of \<open>/\<close> that joins, with \<open>/\<close> between the segments, to the splat.
  The loader signals not-found exactly when the source has no page for that list.
\<close>

theorem Route_loader_looks_up_split_splat:
  assumes "splat ps = Some s"
  shows "lookups (snd (Route_loader src cl ps log)) = lookups log @ [split s CHR ''/'']
    \<and> (\<forall>w\<in>set (split s CHR ''/''). CHR ''/'' \<notin> set w)
    \<and> join (split s CHR ''/'') CHR ''/'' = s
    \<and> (fst (Route_loader src cl ps log) = Inl NotFound)
        = (getPage src (split s CHR ''/'') = None)"
proof -
  from assms have sl: "slugs_of ps = split s CHR ''/''" by (simp add: slugs_of_def)
  have "lookups (snd (Route_loader src cl ps log)) = lookups log @ [split s CHR ''/'']"
    by (simp add: Route_loader_eq sl lookups_append split: option.splits)
  moreover have "\<forall>w\<in>set (split s CHR ''/''). CHR ''/'' \<notin> set w"
    by (blast dest: split_segments)
  moreover have "join (split s CHR ''/'') CHR ''/'' = s" by (rule join_split)
  moreover have "(fst (Route_loader src cl ps log) = Inl NotFound)
                   = (getPage src (split s CHR ''/'') = None)"
    by (simp add: Route_loader_eq sl split: option.splits settled.splits)
  ultimately show ?thesis by blast
qed

theorem Route_loader_looks_up_split_splat_witness:
  "splat \<lparr> splat = Some ''guide/intro'' \<rparr> = Some ''guide/intro''
   \<and> lookups (snd (Route_loader example_source example_client_loader
                      \<lparr> splat = Some ''guide/intro'' \<rparr> []))
       = [[''guide'', ''intro'']]
   \<and> join [''guide'', ''intro''] CHR ''/'' = ''guide/intro''
   \<and> fst (Route_loader example_source example_client_loader
             \<lparr> splat = Some ''guide/intro'' \<rparr> []) = Inl NotFound"
proof -
  have h: "splat \<lparr> splat = Some ''guide/intro'' \<rparr> = Some ''guide/intro''" by simp
  have n: "getPage example_source [''guide'', ''intro''] = None"
    by (simp add: example_source_def)
  from Route_loader_looks_up_split_splat [OF h, of example_source example_client_loader "[]"] n
  show ?thesis by (simp add: split.simps)
qed

text \<open>
  C3. For every slug whose lookup succeeds, the route loader asks the client loader to
  preload the path of the page found, right after the lookup; when it returns loader
  data, the preload of the path in the data is already in the log, and \<open>Page\<close>, given
  that data, asks the client loader for the component of exactly that path and renders
  it as the content.
\<close>

theorem Route_loader_preloads_returned_path:
  assumes "getPage src (slugs_of ps) = Some page"
  shows "snd (Route_loader src cl ps log)
           = log @ [GetPage (slugs_of ps), Preload (page.path page)]
    \<and> (\<forall>data log'. Route_loader src cl ps log = (Inr data, log') \<longrightarrow>
           path data = page.path page
         \<and> preloads log' = preloads log @ [path data]
         \<and> snd (Page base cl data log') = log' @ [GetComponent (page.path page)]
         \<and> layout_children (fst (Page base cl data log')) = getComponent cl (page.path page))"
  using assms
  by (auto simp: Route_loader_eq Page_def preloads_append split: settled.splits)

theorem Route_loader_preloads_returned_path_witness:
  "getPage example_source (slugs_of \<lparr> splat = Some ''search-params'' \<rparr>)
     = Some \<lparr> page.path = ''(basics)/search-params.md'' \<rparr>
   \<and> Route_loader example_source example_client_loader \<lparr> splat = Some ''search-params'' \<rparr> []
     = (Inr \<lparr> tree = ''the page tree'', path = ''(basics)/search-params.md'' \<rparr>,
        [GetPage [''search-params''], Preload ''(basics)/search-params.md''])
   \<and> snd (Page () example_client_loader
            \<lparr> tree = ''the page tree'', path = ''(basics)/search-params.md'' \<rparr>
            [GetPage [''search-params''], Preload ''(basics)/search-params.md''])
     = [GetPage [''search-params''], Preload ''(basics)/search-params.md'',
        GetComponent ''(basics)/search-params.md'']"
proof -
  have sl: "slugs_of \<lparr> splat = Some ''search-params'' \<rparr> = [''search-params'']"
    by (simp add: slugs_of_def split_no_sep)
  have h: "getPage example_source (slugs_of \<lparr> splat = Some ''search-params'' \<rparr>)
             = Some \<lparr> page.path = ''(basics)/search-params.md'' \<rparr>"
    by (simp add: sl example_source_def)
  have r: "Route_loader example_source example_client_loader
             \<lparr> splat = Some ''search-params'' \<rparr> []
           = (Inr \<lparr> tree = ''the page tree'', path = ''(basics)/search-params.md'' \<rparr>,
              [GetPage [''search-params''], Preload ''(basics)/search-params.md''])"
    by (simp add: Route_loader_eq sl example_source_def example_client_loader_def)
  from Route_loader_preloads_returned_path
         [OF h, of example_client_loader "[]" "()"] r h
  show ?thesis by (simp add: sl)
qed

text \<open>
  C8. The route loader turns an absent splat into the empty slug list, and the empty
  splat string into the list of one empty segment, which is not the empty list; the
  lookup it makes is for \<open>[]\<close> in the first case and for \<open>[""]\<close> in the second.
\<close>

theorem slugs_of_absent_and_empty_splat:
  "slugs_of \<lparr> splat = None \<rparr> = []
   \<and> slugs_of \<lparr> splat = Some [] \<rparr> = [[]]
   \<and> slugs_of \<lparr> splat = Some [] \<rparr> \<noteq> []
   \<and> lookups (snd (Route_loader src cl \<lparr> splat = None \<rparr> log)) = lookups log @ [[]]
   \<and> lookups (snd (Route_loader src cl \<lparr> splat = Some [] \<rparr> log)) = lookups log @ [[[]]]"
  by (simp add: slugs_of_def split_Nil Route_loader_eq lookups_append split: option.splits)

text \<open>
  C9. If the server function signals not-found, the route loader ends with that
  not-found: its only call is the lookup, no preload is made and no loader data is
  produced.
\<close>

theorem Route_loader_not_found_no_preload:
  assumes "fst (loader src (slugs_of ps) log) = Inl NotFound"
  shows "Route_loader src cl ps log = (Inl NotFound, log @ [GetPage (slugs_of ps)])
    \<and> preloads (snd (Route_loader src cl ps log)) = preloads log
    \<and> (\<forall>data. fst (Route_loader src cl ps log) \<noteq> Inr data)"
  using assms
  by (auto simp: Route_loader_eq loader_eq preloads_append split: option.splits)

theorem Route_loader_not_found_no_preload_witness:
  "fst (loader example_source (slugs_of \<lparr> splat = None \<rparr>) []) = Inl NotFound
   \<and> Route_loader example_source example_client_loader \<lparr> splat = None \<rparr> []
       = (Inl NotFound, [GetPage []])
   \<and> preloads (snd (Route_loader example_source example_client_loader
                       \<lparr> splat = None \<rparr> [])) = []"
proof -
  have sl: "slugs_of \<lparr> splat = None \<rparr> = []" by (simp add: slugs_of_def)
  have h: "fst (loader example_source (slugs_of \<lparr> splat = None \<rparr>) []) = Inl NotFound"
    by (simp add: sl loader_eq example_source_def)
  from Route_loader_not_found_no_preload [OF h, of example_client_loader] h sl
  show ?thesis by simp
qed

section \<open>The navigation tree\<close>

lemma nodes_sidebar_tree:
  "nodes sidebar_tree = sidebar_tree # the (children sidebar_tree)"
  by (simp add: sidebar_tree_def)

text \<open>
  C6. In the navigation tree every node of type page has a url and every node of type
  separator has none; and the tree that \<open>Page\<close> hands to the layout is this one
  constant, whatever the layout options, the client loader, the loader data and the
  calls made before.
\<close>

theorem sidebar_tree_page_url_separator_none:
  "(\<forall>n\<in>set (nodes sidebar_tree).
      (type n = Some PageNode \<longrightarrow> url n \<noteq> None)
    \<and> (type n = Some SeparatorNode \<longrightarrow> url n = None))
   \<and> layout_tree (fst (Page base cl data log)) = sidebar_tree"
  by (simp add: nodes_sidebar_tree Page_def) (simp add: sidebar_tree_def)

theorem sidebar_tree_page_url_separator_none_witness:
  "Node ''Search Params'' (Some PageNode) (Some ''/docs/search-params'') None
     \<in> set (nodes sidebar_tree)
   \<and> type (Node ''Search Params'' (Some PageNode) (Some ''/docs/search-params'') None)
     = Some PageNode
   \<and> url (Node ''Search Params'' (Some PageNode) (Some ''/docs/search-params'') None) \<noteq> None
   \<and> Node ''Hooks'' (Some SeparatorNode) None None \<in> set (nodes sidebar_tree)
   \<and> type (Node ''Hooks'' (Some SeparatorNode) None None) = Some SeparatorNode
   \<and> url (Node ''Hooks'' (Some SeparatorNode) None None) = None"
proof -
  have a: "Node ''Search Params'' (Some PageNode) (Some ''/docs/search-params'') None
             \<in> set (nodes sidebar_tree)"
    by (simp add: sidebar_tree_def)
  have b: "Node ''Hooks'' (Some SeparatorNode) None None \<in> set (nodes sidebar_tree)"
    by (simp add: sidebar_tree_def)
  from sidebar_tree_page_url_separator_none [THEN conjunct1, THEN bspec, OF a]
    sidebar_tree_page_url_separator_none [THEN conjunct1, THEN bspec, OF b] a b
  show ?thesis by simp
qed

section \<open>The front matter of the content files\<close>

lemma front_matter_head:
  assumes "t \<noteq> ''---''" and "d \<noteq> ''---''"
  shows "front_matter (''---'' # t # d # ''---'' # body) = Some [t, d]"
  using assms by (simp add: front_matter_def)

lemma has_title_and_description_head:
  assumes "prefix ''title: '' t" and "prefix ''description: '' d"
  shows "has_title_and_description (''---'' # t # d # ''---'' # body)"
proof -
  from assms(1) have t: "t \<noteq> ''---''" by auto
  from assms(2) have d: "d \<noteq> ''---''" by auto
  show ?thesis
    using assms
    by (simp add: has_title_and_description_def front_matter_head [OF t d] declares_def)
qed

text \<open>The check refuses a text without a block, and a block without one of the
  fields.\<close>

lemma has_title_and_description_refuses:
  "\<not> has_title_and_description [''# Search Params'', ''text'']
   \<and> \<not> has_title_and_description [''---'', ''title: Search Params'', ''text'']
   \<and> \<not> has_title_and_description [''---'', ''title: Search Params'', ''---'', ''text'']"
  by (simp add: has_title_and_description_def front_matter_def declares_def)

text \<open>
  C7. Every content file begins with a front matter block that declares a title and a
  description: each of the nine files, whatever text follows its first four lines.
\<close>

theorem content_files_have_title_and_description:
  "f \<in> set content_files \<Longrightarrow> has_title_and_description (f @ body)"
  unfolding content_files_def basic_routing_md_def path_params_md_def search_params_md_def
    use_location_md_def use_navigate_md_def use_params_md_def pagination_md_def
    navigation_page_def use_search_page_def
  by (auto intro!: has_title_and_description_head)

theorem content_files_have_title_and_description_witness:
  "search_params_md \<in> set content_files
   \<and> has_title_and_description (search_params_md @ ['''', ''## How search params work''])"
proof -
  have h: "search_params_md \<in> set content_files" by (simp add: content_files_def)
  from content_files_have_title_and_description [OF h] h show ?thesis by simp
qed

end
